theory Spec2Isabelle
  imports Complex_Main "HOL-Library.Word"
begin

section \<open>Real-time audio capture, waveform display and recording (APP.PY)\<close>

text \<open>
  The program opens an audio input stream, and in a loop reads one block of samples,
  appends it to a WAV file, turns it into a series of plotted amplitudes and redraws a
  figure, until the redraw raises \<^verbatim>\<open>TclError\<close> (the window was closed). The audio
  host, the WAV writer, the figure, the clock and the keyboard are libraries or the
  world outside: they are modelled by their observable state and by scripted outcomes
  (what each call returns or raises), never by an assumption about what they compute.
\<close>

subsection \<open>Data\<close>

type_synonym byte = "8 word"
type_synonym bytes = "byte list"

text \<open>The exceptions that occur in the source or that a library call may raise.\<close>

datatype exn =
  OSError | ValueError | StructError | TclError | ZeroDivisionError | EOFError | OtherError

text \<open>
  What the program prints. The frame rate message carries the quotient
  \<^verbatim>\<open>frame_count / (time.time() - start_time)\<close> as an exact rational; the
  rounding of the \<^verbatim>\<open>{:.0f}\<close> format is not modelled.
\<close>

datatype msg =
  Msg_device nat string
  | Msg_prompt
  | Msg_invalid_index
  | Msg_invalid_input
  | Msg_started
  | Msg_stopped
  | Msg_frame_rate rat

text \<open>
  The audio host (PortAudio host API 0): its devices, each with a name and its
  \<^verbatim>\<open>maxInputChannels\<close>; what \<^verbatim>\<open>audio.open\<close> does for a device index, format,
  channel count, rate and buffer size (\<open>None\<close>: a stream is opened; \<open>Some e\<close>: it
  raises \<open>e\<close>); and the sample size in bytes of a format.
\<close>

record host =
  devices :: "(string \<times> int) list"
  audio_open :: "int \<Rightarrow> int \<Rightarrow> int \<Rightarrow> int \<Rightarrow> int \<Rightarrow> exn option"
  get_sample_size :: "int \<Rightarrow> int"

definition deviceCount :: "host \<Rightarrow> int" where
  "deviceCount h = int (length (devices h))"

text \<open>
  One pass of the capture loop as the world scripts it: what \<^verbatim>\<open>stream.read\<close>
  returns or raises, and what the redraw (\<^verbatim>\<open>fig.canvas.draw\<close> followed by
  \<^verbatim>\<open>flush_events\<close>) raises, if anything.
\<close>

record cycle =
  cyc_read :: "exn + bytes"
  cyc_draw :: "exn option"

text \<open>
  The world of one run: the script of its cycles, the clock difference read when the
  loop is left, and what each call of the teardown raises, if anything. The loop of the
  source has no bound; a run that needs more cycles than the script holds has no result
  (\<open>None\<close>).
\<close>

record run_env =
  cycles :: "cycle list"
  elapsed :: rat
  wav_close_exn :: "exn option"
  stop_stream_exn :: "exn option"
  stream_close_exn :: "exn option"
  terminate_exn :: "exn option"

text \<open>
  The \<^verbatim>\<open>wave.Wave_write\<close> object: the three header fields the source sets, the
  bytes written after the header, and whether \<^verbatim>\<open>close\<close> has finalized the file.
  \<^verbatim>\<open>wave.open\<close>, the three setters and \<^verbatim>\<open>writeframes\<close> are modelled as
  succeeding (\<^verbatim>\<open>writeframes\<close> appends to the data); failures of the storage and
  the refusal of header values by \<^verbatim>\<open>wave\<close> are outside the model.
\<close>

record wave_write =
  wv_path :: string
  wv_nchannels :: int
  wv_sampwidth :: int
  wv_framerate :: int
  wv_data :: bytes
  wv_closed :: bool

datatype stream_status = Not_opened | Active | Stopped | Closed

text \<open>
  The state of a run: the resources it holds (the figure made by
  \<^verbatim>\<open>plt.subplots\<close>, the \<^verbatim>\<open>PyAudio\<close> instance, the stream, the WAV file), the
  data of the plotted line (\<open>None\<close>: the random initial data), the local variable
  \<^verbatim>\<open>frame_count\<close>, how many times \<^verbatim>\<open>stream.read\<close> has been called, and the
  messages printed so far.
\<close>

record run_state =
  figure :: bool
  pyaudio :: bool
  stream :: stream_status
  wav_file :: "wave_write option"
  ydata :: "int list option"
  frame_count :: nat
  reads_done :: nat
  stdout :: "msg list"

subsection \<open>Device validation and listing\<close>

definition validate_device :: "int \<Rightarrow> host \<Rightarrow> bool" where
  "validate_device device_index h =
     (let num_devices = deviceCount h
      in if device_index < 0 \<or> device_index \<ge> num_devices then False else True)"

definition list_devices :: "host \<Rightarrow> msg list" where
  "list_devices h =
     map (\<lambda>i. Msg_device i (fst (devices h ! i)))
       (filter (\<lambda>i. snd (devices h ! i) > 0) [0 ..< length (devices h)])"

subsection \<open>From a raw frame to the plotted series (lines 112 and 113)\<close>

text \<open>
  \<^verbatim>\<open>struct.unpack(str(2 * samples_per_frame) + 'B', audio_data)\<close>: the format asks
  for exactly \<open>n\<close> unsigned bytes; a negative count is no format, and a buffer of any
  other length is refused, both with \<^verbatim>\<open>struct.error\<close>.
\<close>

definition unpack_B :: "int \<Rightarrow> bytes \<Rightarrow> exn + int list" where
  "unpack_B n audio_data =
     (if n < 0 \<or> int (length audio_data) \<noteq> n then Inl StructError
      else Inr (map uint audio_data))"

text \<open>
  \<^verbatim>\<open>np.array(data_int, dtype='b')\<close> stores each value 0..255 in a signed byte, so
  values from 128 on wrap around to negative ones. This is the conversion the source
  relies on; a NumPy that refuses out-of-range integers instead is outside the model.
\<close>

definition to_int8 :: "int \<Rightarrow> int" where
  "to_int8 v = sint (word_of_int v :: byte)"

text \<open>The slice \<^verbatim>\<open>[::2]\<close>: the elements at the even offsets.\<close>

fun stride2 :: "'a list \<Rightarrow> 'a list" where
  "stride2 [] = []"
| "stride2 [x] = [x]"
| "stride2 (x # y # xs) = x # stride2 xs"

text \<open>
  The two lines together. Adding 128 promotes the array of signed bytes to a wider
  integer type (as NumPy 1 does for a scalar that does not fit the array's type), so
  the sum cannot overflow.
\<close>

definition data_np :: "int \<Rightarrow> bytes \<Rightarrow> exn + int list" where
  "data_np samples_per_frame audio_data =
     (case unpack_B (2 * samples_per_frame) audio_data of
        Inl e \<Rightarrow> Inl e
      | Inr data_int \<Rightarrow> Inr (map (\<lambda>v. v + 128) (stride2 (map to_int8 data_int))))"

text \<open>
  The transcoding as the specification words it: take every second byte of the frame
  starting at offset 0, read each as a signed 8-bit value, add the bias 128.
\<close>

definition to_series_ref :: "bytes \<Rightarrow> int list" where
  "to_series_ref frame =
     map (\<lambda>i. sint (frame ! (2 * i)) + 128) [0 ..< (length frame + 1) div 2]"

subsection \<open>The capture loop (lines 104 to 128)\<close>

definition writeframes :: "bytes \<Rightarrow> wave_write \<Rightarrow> wave_write" where
  "writeframes audio_data w = w\<lparr>wv_data := wv_data w @ audio_data\<rparr>"

text \<open>
  The result of the loop is \<open>Inr ()\<close> when it is left by \<^verbatim>\<open>break\<close>, \<open>Inl e\<close> when
  \<open>e\<close> is raised and not caught, each with the state reached. \<open>dt\<close> is the value of
  \<^verbatim>\<open>time.time() - start_time\<close> in the handler of \<^verbatim>\<open>TclError\<close>; dividing by it
  raises \<^verbatim>\<open>ZeroDivisionError\<close> when it is zero, before anything is printed.
\<close>

fun capture_loop ::
  "int \<Rightarrow> rat \<Rightarrow> cycle list \<Rightarrow> run_state \<Rightarrow> ((exn + unit) \<times> run_state) option" where
  "capture_loop samples_per_frame dt [] s = None"
| "capture_loop samples_per_frame dt (c # cs) s =
     (let s0 = s\<lparr>reads_done := reads_done s + 1\<rparr> in
      case cyc_read c of
        Inl e \<Rightarrow> Some (Inl e, s0)
      | Inr audio_data \<Rightarrow>
          let s1 = s0\<lparr>wav_file := map_option (writeframes audio_data) (wav_file s0)\<rparr> in
          (case data_np samples_per_frame audio_data of
             Inl e \<Rightarrow> Some (Inl e, s1)
           | Inr ys \<Rightarrow>
               let s2 = s1\<lparr>ydata := Some ys\<rparr> in
               (case cyc_draw c of
                  None \<Rightarrow>
                    capture_loop samples_per_frame dt cs
                      (s2\<lparr>frame_count := frame_count s2 + 1\<rparr>)
                | Some TclError \<Rightarrow>
                    if dt = 0 then Some (Inl ZeroDivisionError, s2)
                    else Some (Inr (),
                      s2\<lparr>stdout := stdout s2 @
                        [Msg_stopped, Msg_frame_rate (of_nat (frame_count s2) / dt)]\<rparr>)
                | Some e \<Rightarrow> Some (Inl e, s2))))"

subsection \<open>Teardown (lines 130 to 138)\<close>

text \<open>
  Four calls in sequence, none inside a \<^verbatim>\<open>try\<close>: the first that raises ends the
  run, and the calls after it are not made. A call that raises is taken to have changed
  nothing.
\<close>

definition teardown :: "run_env \<Rightarrow> run_state \<Rightarrow> (exn + bool) \<times> run_state" where
  "teardown env s =
     (case wav_close_exn env of
        Some e \<Rightarrow> (Inl e, s)
      | None \<Rightarrow>
          let s1 = s\<lparr>wav_file := map_option (\<lambda>w. w\<lparr>wv_closed := True\<rparr>) (wav_file s)\<rparr> in
          (case stop_stream_exn env of
             Some e \<Rightarrow> (Inl e, s1)
           | None \<Rightarrow>
               let s2 = s1\<lparr>stream := Stopped\<rparr> in
               (case stream_close_exn env of
                  Some e \<Rightarrow> (Inl e, s2)
                | None \<Rightarrow>
                    let s3 = s2\<lparr>stream := Closed\<rparr> in
                    (case terminate_exn env of
                       Some e \<Rightarrow> (Inl e, s3)
                     | None \<Rightarrow> (Inr True, s3\<lparr>pyaudio := False\<rparr>)))))"

subsection \<open>A run\<close>

definition wave_open :: "string \<Rightarrow> wave_write" where
  "wave_open output_file =
     \<lparr>wv_path = output_file, wv_nchannels = 0, wv_sampwidth = 0, wv_framerate = 0,
      wv_data = [], wv_closed = False\<rparr>"

text \<open>The state once the figure and the \<^verbatim>\<open>PyAudio\<close> instance exist (lines 55, 58).\<close>

definition init_state :: "msg list \<Rightarrow> run_state" where
  "init_state out =
     \<lparr>figure = True, pyaudio = True, stream = Not_opened, wav_file = None,
      ydata = None, frame_count = 0, reads_done = 0, stdout = out\<rparr>"

text \<open>
  \<open>visualize_audio\<close> returns \<open>Inr True\<close> or \<open>Inr False\<close> as the source does, or
  \<open>Inl e\<close> when an exception leaves the function; \<open>out\<close> is what has been printed
  before the call.
\<close>

definition visualize_audio ::
  "host \<Rightarrow> run_env \<Rightarrow> msg list \<Rightarrow> int \<Rightarrow> int \<Rightarrow> int \<Rightarrow> int \<Rightarrow> int \<Rightarrow> string
     \<Rightarrow> ((exn + bool) \<times> run_state) option" where
  "visualize_audio h env out device_index samples_per_frame audio_format num_channels
       sample_rate output_file =
     (let s = init_state out in
      case audio_open h device_index audio_format num_channels sample_rate samples_per_frame of
        Some OSError \<Rightarrow> Some (Inr False, s\<lparr>stdout := stdout s @ [Msg_invalid_index]\<rparr>)
      | Some e \<Rightarrow> Some (Inl e, s)
      | None \<Rightarrow>
          let s1 = s\<lparr>stream := Active\<rparr>;
              w = (wave_open output_file)
                    \<lparr>wv_nchannels := num_channels,
                     wv_sampwidth := get_sample_size h audio_format,
                     wv_framerate := sample_rate\<rparr>;
              s2 = s1\<lparr>wav_file := Some w, stdout := stdout s1 @ [Msg_started]\<rparr>
          in
          (case capture_loop samples_per_frame (elapsed env) (cycles env) s2 of
             None \<Rightarrow> None
           | Some (Inl e, s3) \<Rightarrow> Some (Inl e, s3)
           | Some (Inr u, s3) \<Rightarrow> Some (teardown env s3)))"

subsection \<open>Interactive selection and the driver\<close>

text \<open>
  A line typed at the prompt, by what \<^verbatim>\<open>int(input(...))\<close> makes of it: an integer,
  or a \<^verbatim>\<open>ValueError\<close>. When the input is exhausted \<^verbatim>\<open>input\<close> raises
  \<^verbatim>\<open>EOFError\<close>, which the source does not catch.
\<close>

datatype user_input = Typed_int int | Typed_other

fun select_device ::
  "host \<Rightarrow> user_input list \<Rightarrow> msg list \<Rightarrow> (exn + int) \<times> user_input list \<times> msg list" where
  "select_device h [] out = (Inl EOFError, [], out @ list_devices h @ [Msg_prompt])"
| "select_device h (Typed_other # ins) out =
     select_device h ins (out @ list_devices h @ [Msg_prompt, Msg_invalid_input])"
| "select_device h (Typed_int device_index # ins) out =
     (if validate_device device_index h
      then (Inr device_index, ins, out @ list_devices h @ [Msg_prompt])
      else select_device h ins (out @ list_devices h @ [Msg_prompt, Msg_invalid_index]))"

record args =
  input_device :: "int option"
  samples_per_frame :: int
  audio_format :: int
  num_channels :: int
  sample_rate :: int
  output_file :: string

text \<open>How the process ends, with what is left of the input and everything printed.\<close>

datatype exit = Exit_normal | Uncaught exn

text \<open>
  The loop of lines 184 to 189. Each run has a world of its own, so the list of worlds
  bounds the number of runs: when it is used up and another run is due, there is no
  result (\<open>None\<close>).
\<close>

fun main_loop ::
  "host \<Rightarrow> args \<Rightarrow> int \<Rightarrow> run_env list \<Rightarrow> user_input list \<Rightarrow> msg list
     \<Rightarrow> (exit \<times> user_input list \<times> msg list) option" where
  "main_loop h a device_index [] ins out = None"
| "main_loop h a device_index (env # envs) ins out =
     (case visualize_audio h env out device_index (samples_per_frame a) (audio_format a)
             (num_channels a) (sample_rate a) (output_file a) of
        None \<Rightarrow> None
      | Some (Inl e, s) \<Rightarrow> Some (Uncaught e, ins, stdout s)
      | Some (Inr success, s) \<Rightarrow>
          if \<not> success then
            (case select_device h ins (stdout s) of
               (Inl e, ins', out') \<Rightarrow> Some (Uncaught e, ins', out')
             | (Inr device_index', ins', out') \<Rightarrow> main_loop h a device_index' envs ins' out')
          else Some (Exit_normal, ins, stdout s))"

definition main ::
  "host \<Rightarrow> args \<Rightarrow> run_env list \<Rightarrow> user_input list
     \<Rightarrow> (exit \<times> user_input list \<times> msg list) option" where
  "main h a envs ins =
     (case (case input_device a of
              None \<Rightarrow> select_device h ins []
            | Some i \<Rightarrow>
                if \<not> validate_device i h then select_device h ins []
                else (Inr i, ins, [])) of
        (Inl e, ins', out) \<Rightarrow> Some (Uncaught e, ins', out)
      | (Inr device_index, ins', out) \<Rightarrow> main_loop h a device_index envs ins' out)"

subsection \<open>Worlds and states used to state the properties\<close>

text \<open>
  Three kinds of cycle: the frame is read and the redraw succeeds; the frame is read and
  the redraw raises \<^verbatim>\<open>TclError\<close>; the read raises.
\<close>

definition ok_cycle :: "bytes \<Rightarrow> cycle" where
  "ok_cycle f = \<lparr>cyc_read = Inr f, cyc_draw = None\<rparr>"

definition closing_cycle :: "bytes \<Rightarrow> cycle" where
  "closing_cycle f = \<lparr>cyc_read = Inr f, cyc_draw = Some TclError\<rparr>"

definition failing_cycle :: "exn \<Rightarrow> cycle" where
  "failing_cycle e = \<lparr>cyc_read = Inl e, cyc_draw = None\<rparr>"

text \<open>The frames that a list of reads returned, in order; reads that raised gave none.\<close>

fun frames_of :: "(exn + bytes) list \<Rightarrow> bytes list" where
  "frames_of [] = []"
| "frames_of (Inl e # rs) = frames_of rs"
| "frames_of (Inr f # rs) = f # frames_of rs"

text \<open>What the first \<open>n\<close> reads of a script put into the file.\<close>

definition written :: "nat \<Rightarrow> cycle list \<Rightarrow> bytes" where
  "written n cs = concat (frames_of (take n (map cyc_read cs)))"

text \<open>The state after the frames \<open>fs\<close> have each been read, written, plotted and drawn.\<close>

definition after_frames :: "bytes list \<Rightarrow> run_state \<Rightarrow> run_state" where
  "after_frames fs s =
     s\<lparr>reads_done := reads_done s + length fs,
       wav_file := map_option (\<lambda>w. w\<lparr>wv_data := wv_data w @ concat fs\<rparr>) (wav_file s),
       ydata := (if fs = [] then ydata s else Some (to_series_ref (last fs))),
       frame_count := frame_count s + length fs\<rparr>"

text \<open>The state in which the loop is entered.\<close>

definition opened_state :: "host \<Rightarrow> msg list \<Rightarrow> int \<Rightarrow> int \<Rightarrow> int \<Rightarrow> string \<Rightarrow> run_state" where
  "opened_state h out fmt ch rate path =
     \<lparr>figure = True, pyaudio = True, stream = Active,
      wav_file = Some \<lparr>wv_path = path, wv_nchannels = ch,
        wv_sampwidth = get_sample_size h fmt, wv_framerate = rate,
        wv_data = [], wv_closed = False\<rparr>,
      ydata = None, frame_count = 0, reads_done = 0, stdout = out @ [Msg_started]\<rparr>"

text \<open>
  The state in which the loop is left when the first redraw to fail is that of the frame
  \<open>g\<close>, after the frames \<open>fs\<close> were each read, written and drawn.
\<close>

definition left_state ::
  "host \<Rightarrow> msg list \<Rightarrow> int \<Rightarrow> int \<Rightarrow> int \<Rightarrow> string \<Rightarrow> rat \<Rightarrow> bytes list \<Rightarrow> bytes
     \<Rightarrow> run_state" where
  "left_state h out fmt ch rate path dt fs g =
     \<lparr>figure = True, pyaudio = True, stream = Active,
      wav_file = Some \<lparr>wv_path = path, wv_nchannels = ch,
        wv_sampwidth = get_sample_size h fmt, wv_framerate = rate,
        wv_data = concat fs @ g, wv_closed = False\<rparr>,
      ydata = Some (to_series_ref g), frame_count = length fs,
      reads_done = length fs + 1,
      stdout = out @ [Msg_started, Msg_stopped, Msg_frame_rate (of_nat (length fs) / dt)]\<rparr>"

text \<open>The state in which a read that raises leaves the run, after the frames \<open>fs\<close>.\<close>

definition failed_state ::
  "host \<Rightarrow> msg list \<Rightarrow> int \<Rightarrow> int \<Rightarrow> int \<Rightarrow> string \<Rightarrow> bytes list \<Rightarrow> run_state" where
  "failed_state h out fmt ch rate path fs =
     \<lparr>figure = True, pyaudio = True, stream = Active,
      wav_file = Some \<lparr>wv_path = path, wv_nchannels = ch,
        wv_sampwidth = get_sample_size h fmt, wv_framerate = rate,
        wv_data = concat fs, wv_closed = False\<rparr>,
      ydata = (if fs = [] then None else Some (to_series_ref (last fs))),
      frame_count = length fs, reads_done = length fs + 1,
      stdout = out @ [Msg_started]\<rparr>"

text \<open>
  A host with two input devices that opens a stream for the indices 0 and 1 and raises
  \<^verbatim>\<open>OSError\<close> for every other index, with the sample sizes of the PortAudio formats
  (\<^verbatim>\<open>paInt16 = 8\<close>, \<^verbatim>\<open>paInt8 = 16\<close>); a world in which the clock has advanced by
  one second and the teardown raises nothing; and the arguments of a small run.
\<close>

definition example_host :: host where
  "example_host =
     \<lparr>devices = [(''mic'', 2), (''line in'', 2)],
      audio_open = (\<lambda>i fmt ch rate n. if 0 \<le> i \<and> i < 2 then None else Some OSError),
      get_sample_size = (\<lambda>fmt. if fmt = 8 then 2 else if fmt = 16 then 1 else 4)\<rparr>"

definition quiet_env :: "cycle list \<Rightarrow> run_env" where
  "quiet_env cs =
     \<lparr>cycles = cs, elapsed = 1, wav_close_exn = None, stop_stream_exn = None,
      stream_close_exn = None, terminate_exn = None\<rparr>"

definition example_args :: args where
  "example_args =
     \<lparr>input_device = Some 0, samples_per_frame = 1, audio_format = 8, num_channels = 1,
      sample_rate = 8000, output_file = ''o.wav''\<rparr>"

section \<open>Properties\<close>

subsection \<open>The transcoding\<close>

lemma stride2_map: "stride2 (map f xs) = map f (stride2 xs)"
  by (induction xs rule: stride2.induct) simp_all

lemma length_stride2: "length (stride2 xs) = (length xs + 1) div 2"
  by (induction xs rule: stride2.induct) simp_all

lemma stride2_nth: "stride2 xs = map (\<lambda>i. xs ! (2 * i)) [0 ..< (length xs + 1) div 2]"
proof (induction xs rule: stride2.induct)
  case 1
  show ?case by simp
next
  case (2 x)
  show ?case by simp
next
  case (3 x y xs)
  have "[0 ..< (length (x # y # xs) + 1) div 2] = 0 # map Suc [0 ..< (length xs + 1) div 2]"
    by (simp add: upt_conv_Cons map_Suc_upt del: upt_Suc)
  then show ?case
    using 3 by (simp add: comp_def del: upt_Suc)
qed

lemma to_series_ref_stride2: "to_series_ref frame = map (\<lambda>b. sint b + 128) (stride2 frame)"
  by (simp add: to_series_ref_def stride2_nth [of frame] comp_def)

lemma to_int8_uint: "to_int8 (uint (b :: byte)) = sint b"
  by (simp add: to_int8_def)

lemma data_np_eq:
  "data_np spf frame =
     (if spf < 0 \<or> int (length frame) \<noteq> 2 * spf then Inl StructError
      else Inr (to_series_ref frame))"
  by (simp add: data_np_def unpack_B_def to_series_ref_stride2 stride2_map to_int8_uint
      comp_def)

lemma sint_byte_range: "- 128 \<le> sint (b :: byte) \<and> sint b \<le> 127"
  using sint_ge [of b] sint_lt [of b] by simp

lemma to_series_ref_range:
  assumes "y \<in> set (to_series_ref frame)"
  shows "0 \<le> y \<and> y \<le> 255"
proof -
  from assms obtain b :: byte where "y = sint b + 128"
    by (auto simp: to_series_ref_stride2)
  with sint_byte_range [of b] show ?thesis by simp
qed

lemma length_to_series_ref: "length (to_series_ref frame) = (length frame + 1) div 2"
  by (simp add: to_series_ref_def)

text \<open>
  Claim C2. For a raw frame of the default format (mono, two bytes per sample, hence of
  \<open>2 * samples_per_frame\<close> bytes) the series computed by lines 112 and 113 is the
  reference transcoding of the specification: the bytes at the even offsets, each read
  as a signed 8-bit value, plus 128.
\<close>

theorem data_np_is_to_series_ref:
  "int (length frame) = 2 * spf \<Longrightarrow> data_np spf frame = Inr (to_series_ref frame)"
  by (simp add: data_np_eq)

theorem data_np_is_to_series_ref_witness:
  "int (length [0, 1, 255, 127 :: byte]) = 2 * 2 \<and>
   data_np 2 [0, 1, 255, 127] = Inr (to_series_ref [0, 1, 255, 127]) \<and>
   to_series_ref [0, 1, 255, 127] = [128, 127]"
proof -
  have len: "int (length [0, 1, 255, 127 :: byte]) = 2 * 2" by simp
  have val: "to_series_ref [0, 1, 255, 127] = [128, 127]"
    by (simp add: to_series_ref_stride2)
  from len val data_np_is_to_series_ref [OF len] show ?thesis by simp
qed

text \<open>
  Claim C5. The transcoding is a function of the frame and the frame size alone (it
  takes and returns no state, so two applications to the same frame agree). A frame of
  \<open>2 * samples_per_frame\<close> bytes always has a series; and whenever there is a series,
  its length is the frame size and each of its values lies between 0 and 255.
\<close>

theorem data_np_length_range:
  "(int (length frame) = 2 * spf \<longrightarrow> (\<exists>ys. data_np spf frame = Inr ys)) \<and>
   (\<forall>ys. data_np spf frame = Inr ys \<longrightarrow>
      int (length ys) = spf \<and> (\<forall>y \<in> set ys. 0 \<le> y \<and> y \<le> 255))"
proof (intro conjI allI impI)
  assume "int (length frame) = 2 * spf"
  then show "\<exists>ys. data_np spf frame = Inr ys"
    by (simp add: data_np_eq)
next
  fix ys assume ys: "data_np spf frame = Inr ys"
  then have len: "int (length frame) = 2 * spf" and eq: "ys = to_series_ref frame"
    by (simp_all add: data_np_eq split: if_splits)
  from len have "length frame = 2 * nat spf" by linarith
  with eq len show "int (length ys) = spf"
    by (simp add: length_to_series_ref)
  from eq show "\<forall>y \<in> set ys. 0 \<le> y \<and> y \<le> 255"
    using to_series_ref_range by blast
qed

theorem data_np_length_range_witness:
  "int (length [128, 9, 127, 9, 200, 9 :: byte]) = 2 * 3 \<and>
   data_np 3 [128, 9, 127, 9, 200, 9] = Inr [0, 255, 72] \<and>
   int (length [0, 255, 72 :: int]) = 3 \<and>
   list_all (\<lambda>y. 0 \<le> y \<and> y \<le> 255) [0, 255, 72 :: int]"
proof -
  have len: "int (length [128, 9, 127, 9, 200, 9 :: byte]) = 2 * 3" by simp
  have val: "data_np 3 [128, 9, 127, 9, 200, 9] = Inr [0, 255, 72]"
    by (simp add: data_np_eq to_series_ref_stride2)
  from data_np_length_range [of "[128, 9, 127, 9, 200, 9]" 3] len val
  show ?thesis by simp
qed

subsection \<open>One pass of the loop\<close>

lemma loop_read_fails:
  "cyc_read c = Inl e \<Longrightarrow>
   capture_loop spf dt (c # cs) s = Some (Inl e, s\<lparr>reads_done := reads_done s + 1\<rparr>)"
  by simp

lemma loop_unpack_fails:
  "cyc_read c = Inr f \<Longrightarrow> data_np spf f = Inl e \<Longrightarrow>
   capture_loop spf dt (c # cs) s =
     Some (Inl e, s\<lparr>reads_done := reads_done s + 1,
                    wav_file := map_option (writeframes f) (wav_file s)\<rparr>)"
  by (simp add: Let_def)

lemma loop_draw_ok:
  "cyc_read c = Inr f \<Longrightarrow> data_np spf f = Inr ys \<Longrightarrow> cyc_draw c = None \<Longrightarrow>
   capture_loop spf dt (c # cs) s =
     capture_loop spf dt cs
       (s\<lparr>reads_done := reads_done s + 1,
          wav_file := map_option (writeframes f) (wav_file s),
          ydata := Some ys,
          frame_count := frame_count s + 1\<rparr>)"
  by (simp add: Let_def)

lemma loop_closed:
  "cyc_read c = Inr f \<Longrightarrow> data_np spf f = Inr ys \<Longrightarrow> cyc_draw c = Some TclError \<Longrightarrow>
   dt \<noteq> 0 \<Longrightarrow>
   capture_loop spf dt (c # cs) s =
     Some (Inr (),
       s\<lparr>reads_done := reads_done s + 1,
         wav_file := map_option (writeframes f) (wav_file s),
         ydata := Some ys,
         stdout := stdout s @ [Msg_stopped, Msg_frame_rate (of_nat (frame_count s) / dt)]\<rparr>)"
  by (simp add: Let_def)

lemma loop_draw_raises:
  "cyc_read c = Inr f \<Longrightarrow> data_np spf f = Inr ys \<Longrightarrow> cyc_draw c = Some e \<Longrightarrow>
   e \<noteq> TclError \<Longrightarrow>
   capture_loop spf dt (c # cs) s =
     Some (Inl e,
       s\<lparr>reads_done := reads_done s + 1,
         wav_file := map_option (writeframes f) (wav_file s),
         ydata := Some ys\<rparr>)"
  by (cases e) (simp_all add: Let_def)

subsection \<open>Several passes\<close>

lemma after_frames_Nil: "after_frames [] s = s"
  by (simp add: after_frames_def option.map_ident)

lemma after_frames_Cons:
  "after_frames (f # fs) s =
     after_frames fs
       (s\<lparr>reads_done := reads_done s + 1,
          wav_file := map_option (writeframes f) (wav_file s),
          ydata := Some (to_series_ref f),
          frame_count := frame_count s + 1\<rparr>)"
  by (cases "wav_file s") (simp_all add: after_frames_def writeframes_def)

lemma loop_ok_prefix:
  "\<forall>f \<in> set fs. int (length f) = 2 * spf \<Longrightarrow>
   capture_loop spf dt (map ok_cycle fs @ cs) s = capture_loop spf dt cs (after_frames fs s)"
proof (induction fs arbitrary: s)
  case Nil
  show ?case by (simp add: after_frames_Nil)
next
  case (Cons f fs)
  from Cons.prems have len: "int (length f) = 2 * spf" and rest: "\<forall>f \<in> set fs. int (length f) = 2 * spf"
    by simp_all
  from len have np: "data_np spf f = Inr (to_series_ref f)"
    by (simp add: data_np_eq) 
  have "capture_loop spf dt (map ok_cycle (f # fs) @ cs) s =
        capture_loop spf dt (map ok_cycle fs @ cs)
          (s\<lparr>reads_done := reads_done s + 1,
             wav_file := map_option (writeframes f) (wav_file s),
             ydata := Some (to_series_ref f),
             frame_count := frame_count s + 1\<rparr>)"
    using loop_draw_ok [of "ok_cycle f" f spf "to_series_ref f" dt "map ok_cycle fs @ cs" s] np
    by (simp add: ok_cycle_def)
  also have "\<dots> = capture_loop spf dt cs (after_frames (f # fs) s)"
    by (simp only: Cons.IH [OF rest] after_frames_Cons)
  finally show ?case .
qed

lemma written_0: "written 0 cs = []"
  by (simp add: written_def)

lemma written_Suc_Inr: "cyc_read c = Inr f \<Longrightarrow> written (Suc n) (c # cs) = f @ written n cs"
  by (simp add: written_def)

lemma written_Suc_Inl: "cyc_read c = Inl e \<Longrightarrow> written (Suc n) (c # cs) = written n cs"
  by (simp add: written_def)

lemma loop_invariant:
  "capture_loop spf dt cs s = Some (r, s') \<Longrightarrow>
     figure s' = figure s \<and> pyaudio s' = pyaudio s \<and> stream s' = stream s \<and>
     reads_done s < reads_done s' \<and> reads_done s' - reads_done s \<le> length cs \<and>
     wav_file s' =
       map_option (\<lambda>w. w\<lparr>wv_data := wv_data w @ written (reads_done s' - reads_done s) cs\<rparr>)
         (wav_file s)"
proof (induction cs arbitrary: s)
  case Nil
  then show ?case by simp
next
  case (Cons c cs)
  show ?case
  proof (cases "cyc_read c")
    case (Inl e)
    with Cons.prems have "s' = s\<lparr>reads_done := reads_done s + 1\<rparr>"
      by simp
    with Inl show ?thesis
      by (cases "wav_file s") (simp_all add: written_Suc_Inl written_0)
  next
    case (Inr f)
    define s1 where "s1 = s\<lparr>reads_done := reads_done s + 1,
      wav_file := map_option (writeframes f) (wav_file s)\<rparr>"
    have one: "written (Suc 0) (c # cs) = f"
      using Inr by (simp add: written_Suc_Inr written_0)
    have stop: ?thesis if "s' = s1\<lparr>ydata := y, stdout := p\<rparr>" for y p
      using that one by (cases "wav_file s") (simp_all add: s1_def writeframes_def)
    show ?thesis
    proof (cases "data_np spf f")
      case (Inl e)
      with Inr Cons.prems have "s' = s1"
        by (simp add: s1_def Let_def)
      then have "s' = s1\<lparr>ydata := ydata s1, stdout := stdout s1\<rparr>" by simp
      then show ?thesis by (rule stop)
    next
      case ys: (Inr ys)
      show ?thesis
      proof (cases "cyc_draw c")
        case None
        define s2 where "s2 = s1\<lparr>ydata := Some ys, frame_count := frame_count s + 1\<rparr>"
        from Inr ys None Cons.prems have "capture_loop spf dt cs s2 = Some (r, s')"
          by (simp add: s1_def s2_def Let_def)
        from Cons.IH [OF this]
        have ih: "figure s' = figure s2" "pyaudio s' = pyaudio s2" "stream s' = stream s2"
          "reads_done s2 < reads_done s'" "reads_done s' - reads_done s2 \<le> length cs"
          "wav_file s' =
             map_option (\<lambda>w. w\<lparr>wv_data := wv_data w @ written (reads_done s' - reads_done s2) cs\<rparr>)
               (wav_file s2)"
          by simp_all
        have rd: "reads_done s2 = reads_done s + 1"
          by (simp add: s1_def s2_def)
        with ih(4) have split: "reads_done s' - reads_done s = Suc (reads_done s' - reads_done s2)"
          by simp
        have "written (reads_done s' - reads_done s) (c # cs) =
                f @ written (reads_done s' - reads_done s2) cs"
          using Inr by (simp only: split written_Suc_Inr)
        with ih rd show ?thesis
          by (cases "wav_file s") (simp_all add: s1_def s2_def writeframes_def)
      next
        case (Some e)
        show ?thesis
        proof (cases "e = TclError")
          case True
          with Inr ys Some Cons.prems
          have "s' = s1\<lparr>ydata := Some ys,
                  stdout := (if dt = 0 then stdout s1 else stdout s @
                     [Msg_stopped, Msg_frame_rate (of_nat (frame_count s) / dt)])\<rparr>"
            by (auto simp: s1_def Let_def split: if_splits)
          then show ?thesis by (rule stop)
        next
          case False
          with Inr ys Some Cons.prems loop_draw_raises [of c f spf ys e dt cs s]
          have "s' = s1\<lparr>ydata := Some ys, stdout := stdout s1\<rparr>"
            by (simp add: s1_def)
          then show ?thesis by (rule stop)
        qed
      qed
    qed
  qed
qed

subsection \<open>Teardown and whole runs\<close>

lemma teardown_keeps:
  "teardown env s = (r, s') \<Longrightarrow>
     figure s' = figure s \<and> reads_done s' = reads_done s \<and> frame_count s' = frame_count s \<and>
     ydata s' = ydata s \<and> stdout s' = stdout s \<and>
     map_option wv_data (wav_file s') = map_option wv_data (wav_file s)"
  by (auto simp: teardown_def Let_def option.map_comp comp_def split: option.splits)

lemma teardown_True:
  "teardown env s = (Inr True, s') \<Longrightarrow>
     wav_file s' = map_option (\<lambda>w. w\<lparr>wv_closed := True\<rparr>) (wav_file s) \<and>
     stream s' = Closed \<and> \<not> pyaudio s'"
  by (auto simp: teardown_def Let_def split: option.splits)

lemma teardown_all_ok:
  "wav_close_exn env = None \<Longrightarrow> stop_stream_exn env = None \<Longrightarrow>
   stream_close_exn env = None \<Longrightarrow> terminate_exn env = None \<Longrightarrow>
   teardown env s =
     (Inr True, s\<lparr>wav_file := map_option (\<lambda>w. w\<lparr>wv_closed := True\<rparr>) (wav_file s),
                  stream := Closed, pyaudio := False\<rparr>)"
  by (simp add: teardown_def)

lemma teardown_result:
  "fst (teardown env s) = Inr True \<longleftrightarrow>
     wav_close_exn env = None \<and> stop_stream_exn env = None \<and>
     stream_close_exn env = None \<and> terminate_exn env = None"
  by (auto simp: teardown_def Let_def split: option.splits)

lemma visualize_audio_opened:
  "audio_open h idx fmt ch rate spf = None \<Longrightarrow>
   visualize_audio h env out idx spf fmt ch rate path =
     (case capture_loop spf (elapsed env) (cycles env) (opened_state h out fmt ch rate path) of
        None \<Rightarrow> None
      | Some (Inl e, s3) \<Rightarrow> Some (Inl e, s3)
      | Some (Inr u, s3) \<Rightarrow> Some (teardown env s3))"
  by (simp add: visualize_audio_def opened_state_def init_state_def wave_open_def)

lemma visualize_audio_OSError:
  "audio_open h idx fmt ch rate spf = Some OSError \<Longrightarrow>
   visualize_audio h env out idx spf fmt ch rate path =
     Some (Inr False, (init_state out)\<lparr>stdout := out @ [Msg_invalid_index]\<rparr>)"
  by (simp add: visualize_audio_def init_state_def)

lemma visualize_audio_open_raises:
  "audio_open h idx fmt ch rate spf = Some e \<Longrightarrow> e \<noteq> OSError \<Longrightarrow>
   visualize_audio h env out idx spf fmt ch rate path = Some (Inl e, init_state out)"
  by (cases e) (simp_all add: visualize_audio_def)

lemma loop_until_closed:
  assumes len: "\<forall>f \<in> set (g # fs). int (length f) = 2 * spf" and dt: "dt \<noteq> 0"
  shows "capture_loop spf dt (map ok_cycle fs @ closing_cycle g # rest)
           (opened_state h out fmt ch rate path) =
         Some (Inr (), left_state h out fmt ch rate path dt fs g)"
proof -
  from len have fs: "\<forall>f \<in> set fs. int (length f) = 2 * spf"
    and g: "data_np spf g = Inr (to_series_ref g)"
    by (simp_all add: data_np_eq)
  have step: "capture_loop spf dt (closing_cycle g # rest) S =
      Some (Inr (),
        S\<lparr>reads_done := reads_done S + 1,
          wav_file := map_option (writeframes g) (wav_file S),
          ydata := Some (to_series_ref g),
          stdout := stdout S @ [Msg_stopped, Msg_frame_rate (of_nat (frame_count S) / dt)]\<rparr>)"
    for S
    by (rule loop_closed) (simp_all add: closing_cycle_def g dt)
  show ?thesis
    unfolding loop_ok_prefix [OF fs] step
    by (simp add: after_frames_def opened_state_def left_state_def writeframes_def)
qed

lemma run_reaches_teardown:
  assumes "audio_open h idx fmt ch rate spf = None"
    and "cycles env = map ok_cycle fs @ closing_cycle g # rest"
    and "\<forall>f \<in> set (g # fs). int (length f) = 2 * spf" and "elapsed env \<noteq> 0"
  shows "visualize_audio h env out idx spf fmt ch rate path =
           Some (teardown env (left_state h out fmt ch rate path (elapsed env) fs g))"
proof -
  have "capture_loop spf (elapsed env) (cycles env) (opened_state h out fmt ch rate path) =
          Some (Inr (), left_state h out fmt ch rate path (elapsed env) fs g)"
    unfolding assms(2) by (rule loop_until_closed [OF assms(3,4)])
  then show ?thesis
    by (simp add: visualize_audio_opened [OF assms(1)])
qed

lemma loop_until_read_fails:
  assumes len: "\<forall>f \<in> set fs. int (length f) = 2 * spf"
  shows "capture_loop spf dt (map ok_cycle fs @ failing_cycle e # rest)
           (opened_state h out fmt ch rate path) =
         Some (Inl e, failed_state h out fmt ch rate path fs)"
proof -
  have step: "capture_loop spf dt (failing_cycle e # rest) S =
      Some (Inl e, S\<lparr>reads_done := reads_done S + 1\<rparr>)" for S
    by (rule loop_read_fails) (simp add: failing_cycle_def)
  show ?thesis
    unfolding loop_ok_prefix [OF len] step
    by (simp add: after_frames_def opened_state_def failed_state_def)
qed

lemma run_read_fails:
  assumes "audio_open h idx fmt ch rate spf = None"
    and "cycles env = map ok_cycle fs @ failing_cycle e # rest"
    and "\<forall>f \<in> set fs. int (length f) = 2 * spf"
  shows "visualize_audio h env out idx spf fmt ch rate path =
           Some (Inl e, failed_state h out fmt ch rate path fs)"
proof -
  have "capture_loop spf (elapsed env) (cycles env) (opened_state h out fmt ch rate path) =
          Some (Inl e, failed_state h out fmt ch rate path fs)"
    unfolding assms(2) by (rule loop_until_read_fails [OF assms(3)])
  then show ?thesis
    by (simp add: visualize_audio_opened [OF assms(1)])
qed

lemma main_loop_read_fails:
  assumes "audio_open h idx (audio_format a) (num_channels a) (sample_rate a)
             (samples_per_frame a) = None"
    and "cycles env = map ok_cycle fs @ failing_cycle e # rest"
    and "\<forall>f \<in> set fs. int (length f) = 2 * samples_per_frame a"
  shows "main_loop h a idx (env # envs) ins out = Some (Uncaught e, ins, out @ [Msg_started])"
  by (simp add: run_read_fails [OF assms] failed_state_def)

text \<open>The definitions that a run on explicit data unfolds.\<close>

lemmas eval_run =
  visualize_audio_def example_host_def quiet_env_def ok_cycle_def closing_cycle_def
  failing_cycle_def init_state_def wave_open_def data_np_def unpack_B_def to_int8_def
  teardown_def writeframes_def

subsection \<open>The recorded file\<close>

text \<open>
  Claim C1. Whenever a run ends with a WAV file, be it by returning or by an exception,
  the data of the file after its header is exactly the concatenation, in the order of
  reading, of the frames that the calls of \<^verbatim>\<open>stream.read\<close> made in this run have
  returned: every frame read is written at once (line 109), before anything else can
  fail. When the run returns \<open>True\<close>, the file has been closed with this content.
\<close>

theorem file_holds_frames_read:
  assumes run: "visualize_audio h env out idx spf fmt ch rate path = Some (r, s)"
    and wav: "wav_file s = Some w"
  shows "reads_done s \<le> length (cycles env) \<and>
         wv_data w = concat (frames_of (take (reads_done s) (map cyc_read (cycles env)))) \<and>
         (r = Inr True \<longrightarrow> wv_closed w)"
proof (cases "audio_open h idx fmt ch rate spf")
  case (Some e)
  with run have "wav_file s = None"
    by (cases "e = OSError")
      (auto simp: visualize_audio_OSError visualize_audio_open_raises init_state_def)
  with wav show ?thesis by simp
next
  case None
  let ?s0 = "opened_state h out fmt ch rate path"
  let ?loop = "capture_loop spf (elapsed env) (cycles env) ?s0"
  from run None obtain q s3 where loop: "?loop = Some (q, s3)"
    and fin: "(case q of Inl e \<Rightarrow> (Inl e, s3) | Inr u \<Rightarrow> teardown env s3) = (r, s)"
    by (auto simp: visualize_audio_opened split: option.splits sum.splits)
  from loop_invariant [OF loop]
  have n: "reads_done s3 \<le> length (cycles env)"
    and d: "map_option wv_data (wav_file s3) = Some (written (reads_done s3) (cycles env))"
    and c: "map_option wv_closed (wav_file s3) = Some False"
    by (simp_all add: opened_state_def)
  show ?thesis
  proof (cases q)
    case (Inl e)
    with fin have "r = Inl e" "s = s3" by simp_all
    with n d wav show ?thesis by (auto simp: written_def)
  next
    case (Inr u)
    with fin have td: "teardown env s3 = (r, s)" by simp
    from teardown_keeps [OF td] n d wav
    have "reads_done s \<le> length (cycles env)"
      and "wv_data w = written (reads_done s) (cycles env)"
      by auto
    moreover have "wv_closed w" if "r = Inr True"
      using teardown_True [of env s3 s] td that wav by (cases "wav_file s3") auto
    ultimately show ?thesis by (simp add: written_def)
  qed
qed

theorem file_holds_frames_read_witness:
  "visualize_audio example_host (quiet_env [ok_cycle [1, 2], closing_cycle [3, 4]]) []
       0 1 8 1 8000 ''o.wav'' =
     Some (Inr True,
       \<lparr>figure = True, pyaudio = False, stream = Closed,
        wav_file = Some \<lparr>wv_path = ''o.wav'', wv_nchannels = 1, wv_sampwidth = 2,
          wv_framerate = 8000, wv_data = [1, 2, 3, 4], wv_closed = True\<rparr>,
        ydata = Some [131], frame_count = 1, reads_done = 2,
        stdout = [Msg_started, Msg_stopped, Msg_frame_rate 1]\<rparr>) \<and>
   [1, 2, 3, 4 :: byte] =
     concat (frames_of (take 2 (map cyc_read
       (cycles (quiet_env [ok_cycle [1, 2], closing_cycle [3, 4]])))))"
proof -
  let ?w = "\<lparr>wv_path = ''o.wav'', wv_nchannels = 1, wv_sampwidth = 2,
          wv_framerate = 8000, wv_data = [1, 2, 3, 4], wv_closed = True\<rparr>"
  let ?s = "\<lparr>figure = True, pyaudio = False, stream = Closed,
        wav_file = Some ?w,
        ydata = Some [131], frame_count = 1, reads_done = 2,
        stdout = [Msg_started, Msg_stopped, Msg_frame_rate 1]\<rparr>"
  have run: "visualize_audio example_host (quiet_env [ok_cycle [1, 2], closing_cycle [3, 4]]) []
       0 1 8 1 8000 ''o.wav'' = Some (Inr True, ?s)"
    by (simp add: eval_run)
  have wav: "wav_file ?s = Some ?w" by simp
  from file_holds_frames_read [OF run wav] run show ?thesis by simp
qed

subsection \<open>Closing the window\<close>

text \<open>
  Claim C3 does not hold as stated. That the window was closed is noticed only when
  the redraw raises \<^verbatim>\<open>TclError\<close>, and the redraw comes after the frame of its cycle
  has been read and written. When the window is closed before any cycle is complete
  (K = 0), the run returns \<open>True\<close> with \<open>frame_count = 0\<close> and a file of one frame (here
  the two bytes 1, 2), not a file of the header alone.
\<close>

theorem closure_detected_one_cycle_late_counterexample:
  "visualize_audio example_host (quiet_env [closing_cycle [1, 2]]) [] 0 1 8 1 8000 ''o.wav'' =
     Some (Inr True,
       \<lparr>figure = True, pyaudio = False, stream = Closed,
        wav_file = Some \<lparr>wv_path = ''o.wav'', wv_nchannels = 1, wv_sampwidth = 2,
          wv_framerate = 8000, wv_data = [1, 2], wv_closed = True\<rparr>,
        ydata = Some [129], frame_count = 0, reads_done = 1,
        stdout = [Msg_started, Msg_stopped, Msg_frame_rate 0]\<rparr>)"
  by (simp add: eval_run)

text \<open>
  Claim C3, amended. Let the redraw raise \<^verbatim>\<open>TclError\<close> for the first time in cycle
  K + 1, after the K frames \<open>fs\<close> were read, written and drawn, with \<open>g\<close> the frame of
  cycle K + 1; let every frame have \<open>2 * samples_per_frame\<close> bytes, the clock have
  advanced, and the teardown raise nothing. Then the run returns \<open>True\<close>; the loop is
  left within cycle K + 1 (\<^verbatim>\<open>stream.read\<close> was called K + 1 times);
  \<open>frame_count\<close> is K; and the closed file has the configured channel count, sample
  width and rate in its header, followed by exactly the K + 1 frames read, in order.
\<close>

theorem closure_after_K_cycles:
  assumes "audio_open h idx fmt ch rate spf = None"
    and "cycles env = map ok_cycle fs @ closing_cycle g # rest"
    and "\<forall>f \<in> set (g # fs). int (length f) = 2 * spf"
    and "elapsed env \<noteq> 0"
    and "wav_close_exn env = None" and "stop_stream_exn env = None"
    and "stream_close_exn env = None" and "terminate_exn env = None"
  shows "\<exists>s. visualize_audio h env out idx spf fmt ch rate path = Some (Inr True, s) \<and>
           frame_count s = length fs \<and> reads_done s = length fs + 1 \<and>
           wav_file s = Some \<lparr>wv_path = path, wv_nchannels = ch,
             wv_sampwidth = get_sample_size h fmt, wv_framerate = rate,
             wv_data = concat fs @ g, wv_closed = True\<rparr> \<and>
           stdout s = out @ [Msg_started, Msg_stopped,
             Msg_frame_rate (of_nat (length fs) / elapsed env)]"
  unfolding run_reaches_teardown [OF assms(1-4)] teardown_all_ok [OF assms(5-8)]
  by (simp add: left_state_def)

theorem closure_after_K_cycles_witness:
  "audio_open example_host 0 8 1 8000 1 = None \<and>
   cycles (quiet_env [ok_cycle [1, 2], ok_cycle [3, 4], closing_cycle [5, 6]]) =
     map ok_cycle [[1, 2], [3, 4]] @ closing_cycle [5, 6] # [] \<and>
   list_all (\<lambda>f. int (length f) = 2 * 1) [[5, 6], [1, 2], [3, 4 :: byte]] \<and>
   elapsed (quiet_env [ok_cycle [1, 2], ok_cycle [3, 4], closing_cycle [5, 6]]) \<noteq> 0 \<and>
   visualize_audio example_host
       (quiet_env [ok_cycle [1, 2], ok_cycle [3, 4], closing_cycle [5, 6]]) []
       0 1 8 1 8000 ''o.wav'' =
     Some (Inr True,
       \<lparr>figure = True, pyaudio = False, stream = Closed,
        wav_file = Some \<lparr>wv_path = ''o.wav'', wv_nchannels = 1, wv_sampwidth = 2,
          wv_framerate = 8000, wv_data = [1, 2, 3, 4, 5, 6], wv_closed = True\<rparr>,
        ydata = Some [133], frame_count = 2, reads_done = 3,
        stdout = [Msg_started, Msg_stopped, Msg_frame_rate 2]\<rparr>)"
proof -
  let ?env = "quiet_env [ok_cycle [1, 2], ok_cycle [3, 4], closing_cycle [5, 6]]"
  have a: "audio_open example_host 0 8 1 8000 1 = None"
    by (simp add: example_host_def)
  have b: "cycles ?env = map ok_cycle [[1, 2], [3, 4]] @ closing_cycle [5, 6] # []"
    by (simp add: quiet_env_def)
  have c: "\<forall>f \<in> set ([5, 6] # [[1, 2], [3, 4 :: byte]]). int (length f) = 2 * 1"
    by simp
  have d: "elapsed ?env \<noteq> 0" and e: "wav_close_exn ?env = None" "stop_stream_exn ?env = None"
    "stream_close_exn ?env = None" "terminate_exn ?env = None"
    by (simp_all add: quiet_env_def)
  have run: "visualize_audio example_host ?env [] 0 1 8 1 8000 ''o.wav'' =
     Some (Inr True,
       \<lparr>figure = True, pyaudio = False, stream = Closed,
        wav_file = Some \<lparr>wv_path = ''o.wav'', wv_nchannels = 1, wv_sampwidth = 2,
          wv_framerate = 8000, wv_data = [1, 2, 3, 4, 5, 6], wv_closed = True\<rparr>,
        ydata = Some [133], frame_count = 2, reads_done = 3,
        stdout = [Msg_started, Msg_stopped, Msg_frame_rate 2]\<rparr>)"
    by (simp add: eval_run)
  from closure_after_K_cycles [OF a b c d e, of "[]" "''o.wav''"] a b d run
  show ?thesis by simp
qed

subsection \<open>A read that fails\<close>

text \<open>
  Claim C4. After one complete cycle the second \<^verbatim>\<open>stream.read\<close> raises
  \<^verbatim>\<open>OSError\<close>. Nothing in \<open>visualize_audio\<close> catches it: the function does not
  return \<open>False\<close>, the exception leaves it with the WAV file not closed (it holds the
  one frame read before), the stream still active and the \<^verbatim>\<open>PyAudio\<close> instance not
  terminated; and the driver does not catch it either, so the process ends with the
  exception instead of asking for another device. (The lemmas \<open>run_read_fails\<close> and
  \<open>main_loop_read_fails\<close> say the same for every run whose read fails.)
\<close>

theorem read_failure_is_uncaught:
  "visualize_audio example_host (quiet_env [ok_cycle [1, 2], failing_cycle OSError]) []
       0 1 8 1 8000 ''o.wav'' =
     Some (Inl OSError,
       \<lparr>figure = True, pyaudio = True, stream = Active,
        wav_file = Some \<lparr>wv_path = ''o.wav'', wv_nchannels = 1, wv_sampwidth = 2,
          wv_framerate = 8000, wv_data = [1, 2], wv_closed = False\<rparr>,
        ydata = Some [129], frame_count = 1, reads_done = 2,
        stdout = [Msg_started]\<rparr>) \<and>
   main_loop example_host example_args 0
       [quiet_env [ok_cycle [1, 2], failing_cycle OSError]] [Typed_int 1] [] =
     Some (Uncaught OSError, [Typed_int 1], [Msg_started])"
  by (simp add: eval_run example_args_def)

subsection \<open>Teardown\<close>

lemma teardown_wav_file:
  "wav_file (snd (teardown env s)) =
     (if wav_close_exn env = None then map_option (\<lambda>w. w\<lparr>wv_closed := True\<rparr>) (wav_file s)
      else wav_file s)"
  by (simp add: teardown_def Let_def split: option.splits)

lemma teardown_stream:
  "stream (snd (teardown env s)) =
     (if wav_close_exn env = None \<and> stop_stream_exn env = None
      then (if stream_close_exn env = None then Closed else Stopped)
      else stream s)"
  by (simp add: teardown_def Let_def split: option.splits)

lemma teardown_pyaudio:
  "pyaudio (snd (teardown env s)) =
     (if wav_close_exn env = None \<and> stop_stream_exn env = None \<and>
         stream_close_exn env = None \<and> terminate_exn env = None
      then False else pyaudio s)"
  by (simp add: teardown_def Let_def split: option.splits)

lemma teardown_figure: "figure (snd (teardown env s)) = figure s"
  by (simp add: teardown_def Let_def split: option.splits)

text \<open>
  Claim C7 does not hold as stated. The four calls of the teardown stand one after the
  other outside any \<^verbatim>\<open>try\<close>: when \<^verbatim>\<open>wav_file.close()\<close> raises, the exception
  leaves the function, and neither \<^verbatim>\<open>stream.stop_stream()\<close> nor
  \<^verbatim>\<open>stream.close()\<close> nor \<^verbatim>\<open>audio.terminate()\<close> is attempted: the stream stays
  active and the \<^verbatim>\<open>PyAudio\<close> instance alive.
\<close>

theorem teardown_stops_at_first_failure_counterexample:
  "visualize_audio example_host
       ((quiet_env [closing_cycle [1, 2]])\<lparr>wav_close_exn := Some OSError\<rparr>) []
       0 1 8 1 8000 ''o.wav'' =
     Some (Inl OSError,
       \<lparr>figure = True, pyaudio = True, stream = Active,
        wav_file = Some \<lparr>wv_path = ''o.wav'', wv_nchannels = 1, wv_sampwidth = 2,
          wv_framerate = 8000, wv_data = [1, 2], wv_closed = False\<rparr>,
        ydata = Some [129], frame_count = 0, reads_done = 1,
        stdout = [Msg_started, Msg_stopped, Msg_frame_rate 0]\<rparr>)"
  by (simp add: eval_run)

text \<open>
  Claim C7, amended. When the loop is left because the redraw raised \<^verbatim>\<open>TclError\<close>,
  the run closes the WAV file, stops the stream, closes the stream and terminates the
  \<^verbatim>\<open>PyAudio\<close> instance, in this order, each call being made only if all the calls
  before it raised nothing: the file is closed exactly when its close raises nothing,
  the stream has left the active state exactly when moreover stopping it raises
  nothing, and so on; the run returns \<open>True\<close> exactly when none of the four raises.
  The figure is not closed by the run (no statement of the source closes it).
\<close>

theorem teardown_is_sequential:
  assumes "audio_open h idx fmt ch rate spf = None"
    and "cycles env = map ok_cycle fs @ closing_cycle g # rest"
    and "\<forall>f \<in> set (g # fs). int (length f) = 2 * spf"
    and "elapsed env \<noteq> 0"
  shows "\<exists>r s. visualize_audio h env out idx spf fmt ch rate path = Some (r, s) \<and>
     (r = Inr True \<longleftrightarrow>
        wav_close_exn env = None \<and> stop_stream_exn env = None \<and>
        stream_close_exn env = None \<and> terminate_exn env = None) \<and>
     (map_option wv_closed (wav_file s) = Some True \<longleftrightarrow> wav_close_exn env = None) \<and>
     (stream s \<noteq> Active \<longleftrightarrow> wav_close_exn env = None \<and> stop_stream_exn env = None) \<and>
     (stream s = Closed \<longleftrightarrow>
        wav_close_exn env = None \<and> stop_stream_exn env = None \<and>
        stream_close_exn env = None) \<and>
     (\<not> pyaudio s \<longleftrightarrow>
        wav_close_exn env = None \<and> stop_stream_exn env = None \<and>
        stream_close_exn env = None \<and> terminate_exn env = None) \<and>
     figure s"
proof -
  let ?s = "left_state h out fmt ch rate path (elapsed env) fs g"
  obtain r s where td: "teardown env ?s = (r, s)"
    by (cases "teardown env ?s")
  have run: "visualize_audio h env out idx spf fmt ch rate path = Some (r, s)"
    by (simp only: run_reaches_teardown [OF assms] td)
  have r: "r = Inr True \<longleftrightarrow>
        wav_close_exn env = None \<and> stop_stream_exn env = None \<and>
        stream_close_exn env = None \<and> terminate_exn env = None"
    using teardown_result [of env ?s] by (simp add: td)
  have s: "s = snd (teardown env ?s)"
    by (simp add: td)
  have w: "map_option wv_closed (wav_file s) = Some True \<longleftrightarrow> wav_close_exn env = None"
    unfolding s teardown_wav_file by (simp add: left_state_def)
  have a: "stream s \<noteq> Active \<longleftrightarrow> wav_close_exn env = None \<and> stop_stream_exn env = None"
    unfolding s teardown_stream by (simp add: left_state_def)
  have c: "stream s = Closed \<longleftrightarrow>
        wav_close_exn env = None \<and> stop_stream_exn env = None \<and> stream_close_exn env = None"
    unfolding s teardown_stream by (simp add: left_state_def)
  have p: "\<not> pyaudio s \<longleftrightarrow>
        wav_close_exn env = None \<and> stop_stream_exn env = None \<and>
        stream_close_exn env = None \<and> terminate_exn env = None"
    unfolding s teardown_pyaudio by (simp add: left_state_def)
  have f: "figure s"
    unfolding s teardown_figure by (simp add: left_state_def)
  from run r w a c p f show ?thesis
    by (intro exI [of _ r] exI [of _ s] conjI)
qed


theorem teardown_is_sequential_witness:
  "audio_open example_host 0 8 1 8000 1 = None \<and>
   cycles ((quiet_env [closing_cycle [1, 2]])\<lparr>stream_close_exn := Some OSError\<rparr>) =
     map ok_cycle [] @ closing_cycle [1, 2] # [] \<and>
   list_all (\<lambda>f. int (length f) = 2 * 1) [[1, 2 :: byte]] \<and>
   elapsed ((quiet_env [closing_cycle [1, 2]])\<lparr>stream_close_exn := Some OSError\<rparr>) \<noteq> 0 \<and>
   visualize_audio example_host
       ((quiet_env [closing_cycle [1, 2]])\<lparr>stream_close_exn := Some OSError\<rparr>) []
       0 1 8 1 8000 ''o.wav'' =
     Some (Inl OSError,
       \<lparr>figure = True, pyaudio = True, stream = Stopped,
        wav_file = Some \<lparr>wv_path = ''o.wav'', wv_nchannels = 1, wv_sampwidth = 2,
          wv_framerate = 8000, wv_data = [1, 2], wv_closed = True\<rparr>,
        ydata = Some [129], frame_count = 0, reads_done = 1,
        stdout = [Msg_started, Msg_stopped, Msg_frame_rate 0]\<rparr>)"
proof -
  let ?env = "(quiet_env [closing_cycle [1, 2]])\<lparr>stream_close_exn := Some OSError\<rparr>"
  have a: "audio_open example_host 0 8 1 8000 1 = None"
    by (simp add: example_host_def)
  have b: "cycles ?env = map ok_cycle [] @ closing_cycle [1, 2] # []"
    by (simp add: quiet_env_def)
  have c: "\<forall>f \<in> set ([1, 2 :: byte] # []). int (length f) = 2 * 1"
    by simp
  have d: "elapsed ?env \<noteq> 0"
    by (simp add: quiet_env_def)
  have run: "visualize_audio example_host ?env [] 0 1 8 1 8000 ''o.wav'' =
     Some (Inl OSError,
       \<lparr>figure = True, pyaudio = True, stream = Stopped,
        wav_file = Some \<lparr>wv_path = ''o.wav'', wv_nchannels = 1, wv_sampwidth = 2,
          wv_framerate = 8000, wv_data = [1, 2], wv_closed = True\<rparr>,
        ydata = Some [129], frame_count = 0, reads_done = 1,
        stdout = [Msg_started, Msg_stopped, Msg_frame_rate 0]\<rparr>)"
    by (simp add: eval_run)
  from teardown_is_sequential [OF a b c d, of "[]" "''o.wav''"]
  obtain r s where rs: "visualize_audio example_host ?env [] 0 1 8 1 8000 ''o.wav'' = Some (r, s)"
    and st: "stream s = Closed \<longleftrightarrow>
        wav_close_exn ?env = None \<and> stop_stream_exn ?env = None \<and>
        stream_close_exn ?env = None"
    by (elim exE conjE)
  from a b d rs run show ?thesis by simp
qed

subsection \<open>Frames that are not mono 16-bit\<close>

text \<open>
  Claim C9 does not hold as stated. With two channels of one byte each
  (\<^verbatim>\<open>paInt8\<close>) a frame of one sample per channel has \<open>1 * 2 * 1 = 2\<close> bytes, which
  is what the unpacking of line 112 expects: the first cycle succeeds, although the
  channel count is not 1 and the sample width is not 2.
\<close>

theorem two_channels_of_one_byte_counterexample:
  "int (length [3, 4 :: byte]) = 1 * 2 * get_sample_size example_host 16 \<and>
   visualize_audio example_host (quiet_env [ok_cycle [3, 4], closing_cycle [5, 6]]) []
       0 1 16 2 8000 ''o.wav'' =
     Some (Inr True,
       \<lparr>figure = True, pyaudio = False, stream = Closed,
        wav_file = Some \<lparr>wv_path = ''o.wav'', wv_nchannels = 2, wv_sampwidth = 1,
          wv_framerate = 8000, wv_data = [3, 4, 5, 6], wv_closed = True\<rparr>,
        ydata = Some [133], frame_count = 1, reads_done = 2,
        stdout = [Msg_started, Msg_stopped, Msg_frame_rate 1]\<rparr>)"
  by (simp add: eval_run)

text \<open>
  Claim C9, amended. Let the first read return a frame of
  \<open>samples_per_frame * num_channels * sample width\<close> bytes, with a positive frame size.
  Then the unpacking of this frame raises \<^verbatim>\<open>struct.error\<close> exactly when
  \<open>num_channels * sample width\<close> is not 2 (and yields the series otherwise); and when it
  raises, the run ends with this exception in its first cycle, after the frame has been
  written to the file: no series is plotted, \<open>frame_count\<close> is 0, and the file, the
  stream and the \<^verbatim>\<open>PyAudio\<close> instance are left open.
\<close>

theorem first_unpack_fails_iff:
  assumes "audio_open h idx fmt ch rate spf = None"
    and "cycles env = c # cs" and "cyc_read c = Inr f"
    and "int (length f) = spf * ch * get_sample_size h fmt" and "0 < spf"
  shows "(data_np spf f = Inl StructError \<longleftrightarrow> ch * get_sample_size h fmt \<noteq> 2) \<and>
         (data_np spf f = Inr (to_series_ref f) \<longleftrightarrow> ch * get_sample_size h fmt = 2) \<and>
         (ch * get_sample_size h fmt \<noteq> 2 \<longrightarrow>
            (\<exists>s. visualize_audio h env out idx spf fmt ch rate path = Some (Inl StructError, s) \<and>
                 frame_count s = 0 \<and> ydata s = None \<and>
                 map_option wv_data (wav_file s) = Some f \<and>
                 map_option wv_closed (wav_file s) = Some False \<and>
                 stream s = Active \<and> pyaudio s))"
proof -
  have "spf * (ch * get_sample_size h fmt) = spf * 2 \<longleftrightarrow> ch * get_sample_size h fmt = 2"
    using assms(5) by simp
  then have len: "int (length f) = 2 * spf \<longleftrightarrow> ch * get_sample_size h fmt = 2"
    using assms(4) by (simp add: mult.assoc mult.commute)
  with assms(5) have np: "data_np spf f =
      (if ch * get_sample_size h fmt = 2 then Inr (to_series_ref f) else Inl StructError)"
    by (simp add: data_np_eq)
  have "capture_loop spf (elapsed env) (c # cs) (opened_state h out fmt ch rate path) =
          Some (Inl StructError,
            (opened_state h out fmt ch rate path)
              \<lparr>reads_done := reads_done (opened_state h out fmt ch rate path) + 1,
               wav_file := map_option (writeframes f)
                 (wav_file (opened_state h out fmt ch rate path))\<rparr>)"
    if "ch * get_sample_size h fmt \<noteq> 2"
    by (rule loop_unpack_fails [OF assms(3)]) (simp add: np that)
  then show ?thesis
    by (simp add: np visualize_audio_opened [OF assms(1)] assms(2) opened_state_def
        writeframes_def del: capture_loop.simps)
qed

theorem first_unpack_fails_iff_witness:
  "audio_open example_host 0 8 2 8000 1 = None \<and>
   cycles (quiet_env [ok_cycle [1, 2, 3, 4]]) = ok_cycle [1, 2, 3, 4] # [] \<and>
   cyc_read (ok_cycle [1, 2, 3, 4]) = Inr [1, 2, 3, 4] \<and>
   int (length [1, 2, 3, 4 :: byte]) = 1 * 2 * get_sample_size example_host 8 \<and>
   2 * get_sample_size example_host 8 \<noteq> 2 \<and>
   data_np 1 [1, 2, 3, 4] = Inl StructError \<and>
   visualize_audio example_host (quiet_env [ok_cycle [1, 2, 3, 4]]) [] 0 1 8 2 8000 ''o.wav'' =
     Some (Inl StructError,
       \<lparr>figure = True, pyaudio = True, stream = Active,
        wav_file = Some \<lparr>wv_path = ''o.wav'', wv_nchannels = 2, wv_sampwidth = 2,
          wv_framerate = 8000, wv_data = [1, 2, 3, 4], wv_closed = False\<rparr>,
        ydata = None, frame_count = 0, reads_done = 1,
        stdout = [Msg_started]\<rparr>)"
proof -
  let ?env = "quiet_env [ok_cycle [1, 2, 3, 4]]"
  have a: "audio_open example_host 0 8 2 8000 1 = None"
    by (simp add: example_host_def)
  have b: "cycles ?env = ok_cycle [1, 2, 3, 4] # []"
    by (simp add: quiet_env_def)
  have c: "cyc_read (ok_cycle [1, 2, 3, 4]) = Inr [1, 2, 3, 4]"
    by (simp add: ok_cycle_def)
  have d: "int (length [1, 2, 3, 4 :: byte]) = 1 * 2 * get_sample_size example_host 8"
    by (simp add: example_host_def)
  have e: "(0::int) < 1" by simp
  have w: "2 * get_sample_size example_host 8 \<noteq> 2"
    by (simp add: example_host_def)
  have run: "visualize_audio example_host ?env [] 0 1 8 2 8000 ''o.wav'' =
     Some (Inl StructError,
       \<lparr>figure = True, pyaudio = True, stream = Active,
        wav_file = Some \<lparr>wv_path = ''o.wav'', wv_nchannels = 2, wv_sampwidth = 2,
          wv_framerate = 8000, wv_data = [1, 2, 3, 4], wv_closed = False\<rparr>,
        ydata = None, frame_count = 0, reads_done = 1,
        stdout = [Msg_started]\<rparr>)"
    by (simp add: eval_run)
  from first_unpack_fails_iff [OF a b c d e, of "[]" "''o.wav''"] a b c d w run
  show ?thesis by simp
qed

subsection \<open>Selecting a device\<close>

lemma validate_device_iff: "validate_device i h \<longleftrightarrow> 0 \<le> i \<and> i < deviceCount h"
  by (auto simp: validate_device_def Let_def)

lemma select_device_valid:
  "select_device h ins out = (Inr i, ins', out') \<Longrightarrow> validate_device i h"
  by (induction h ins out rule: select_device.induct) (auto split: if_splits)

lemma select_device_exn:
  "select_device h ins out = (Inl e, ins', out') \<Longrightarrow> e = EOFError \<and> ins' = []"
  by (induction h ins out rule: select_device.induct) (auto split: if_splits)

lemma select_device_returns:
  "Typed_int i \<in> set ins \<Longrightarrow> validate_device i h \<Longrightarrow>
   \<exists>j ins' out'. select_device h ins out = (Inr j, ins', out')"
  by (induction h ins out rule: select_device.induct) (auto split: if_splits)

lemma select_device_first_valid:
  "validate_device i h \<Longrightarrow>
   select_device h (Typed_int i # ins) out = (Inr i, ins, out @ list_devices h @ [Msg_prompt])"
  by simp

text \<open>
  Claim C10. Every index that \<open>select_device\<close> returns satisfies
  \<open>validate_device\<close>, that is, lies in \<open>[0, deviceCount)\<close>; an input that is no
  integer is answered with a message and the next prompt; the only exception that can
  leave the function is the \<^verbatim>\<open>EOFError\<close> of an exhausted input; and when the input
  holds a valid index, the function returns.
\<close>

theorem select_device_validated:
  "(select_device h ins out = (Inr i, ins', out') \<longrightarrow>
      validate_device i h \<and> 0 \<le> i \<and> i < deviceCount h) \<and>
   select_device h (Typed_other # ins) out =
     select_device h ins (out @ list_devices h @ [Msg_prompt, Msg_invalid_input]) \<and>
   (select_device h ins out = (Inl e, ins', out') \<longrightarrow> e = EOFError \<and> ins' = []) \<and>
   (Typed_int j \<in> set ins \<and> validate_device j h \<longrightarrow>
      (\<exists>k ins'' out''. select_device h ins out = (Inr k, ins'', out'')))"
  using select_device_valid [of h ins out i ins' out'] select_device_exn [of h ins out e ins' out']
    select_device_returns [of j ins h out]
  by (simp add: validate_device_iff)

theorem select_device_validated_witness:
  "select_device example_host [Typed_other, Typed_int 7, Typed_int (- 1), Typed_int 1, Typed_int 0] [] =
     (Inr 1, [Typed_int 0],
      [Msg_device 0 ''mic'', Msg_device 1 ''line in'', Msg_prompt, Msg_invalid_input,
       Msg_device 0 ''mic'', Msg_device 1 ''line in'', Msg_prompt, Msg_invalid_index,
       Msg_device 0 ''mic'', Msg_device 1 ''line in'', Msg_prompt, Msg_invalid_index,
       Msg_device 0 ''mic'', Msg_device 1 ''line in'', Msg_prompt]) \<and>
   validate_device 1 example_host \<and> (0::int) \<le> 1 \<and> 1 < deviceCount example_host \<and>
   select_device example_host [Typed_other] [] =
     (Inl EOFError, [],
      [Msg_device 0 ''mic'', Msg_device 1 ''line in'', Msg_prompt, Msg_invalid_input,
       Msg_device 0 ''mic'', Msg_device 1 ''line in'', Msg_prompt])"
proof -
  let ?ins = "[Typed_other, Typed_int 7, Typed_int (- 1), Typed_int 1, Typed_int 0]"
  have ld: "list_devices example_host = [Msg_device 0 ''mic'', Msg_device 1 ''line in'']"
    by (simp add: list_devices_def example_host_def upt_conv_Cons)
  have v: "\<not> validate_device 7 example_host" "\<not> validate_device (- 1) example_host"
    "validate_device 1 example_host"
    by (simp_all add: validate_device_def deviceCount_def example_host_def)
  have run: "select_device example_host ?ins [] =
     (Inr 1, [Typed_int 0],
      [Msg_device 0 ''mic'', Msg_device 1 ''line in'', Msg_prompt, Msg_invalid_input,
       Msg_device 0 ''mic'', Msg_device 1 ''line in'', Msg_prompt, Msg_invalid_index,
       Msg_device 0 ''mic'', Msg_device 1 ''line in'', Msg_prompt, Msg_invalid_index,
       Msg_device 0 ''mic'', Msg_device 1 ''line in'', Msg_prompt])"
    by (simp add: ld v)
  have eof: "select_device example_host [Typed_other] [] =
     (Inl EOFError, [],
      [Msg_device 0 ''mic'', Msg_device 1 ''line in'', Msg_prompt, Msg_invalid_input,
       Msg_device 0 ''mic'', Msg_device 1 ''line in'', Msg_prompt])"
    by (simp add: ld)
  from select_device_validated [where h = example_host and ins = ?ins and out = "[]" and i = 1
      and ins' = "[Typed_int 0]" and e = EOFError and j = 1]
    run eof v
  show ?thesis by simp
qed

subsection \<open>A device that cannot be opened\<close>

text \<open>
  Claim C6 does not hold as stated. For the index 5 of a host with two devices,
  \<^verbatim>\<open>audio.open\<close> raises \<^verbatim>\<open>OSError\<close> and the run returns \<open>False\<close>; no stream and
  no file were opened, but what was opened before the attempt, the figure (line 55) and
  the \<^verbatim>\<open>PyAudio\<close> instance (line 58), is not released on this path.
\<close>

theorem invalid_device_leaves_resources_counterexample:
  "\<not> validate_device 5 example_host \<and>
   visualize_audio example_host (quiet_env []) [] 5 1 8 1 8000 ''o.wav'' =
     Some (Inr False,
       \<lparr>figure = True, pyaudio = True, stream = Not_opened, wav_file = None,
        ydata = None, frame_count = 0, reads_done = 0, stdout = [Msg_invalid_index]\<rparr>)"
  by (simp add: eval_run validate_device_def deviceCount_def)

text \<open>
  Claim C6, amended. For every device index for which \<^verbatim>\<open>audio.open\<close> raises
  \<^verbatim>\<open>OSError\<close> (the way the host reports an invalid device), the run prints the
  message and returns \<open>False\<close> instead of raising; no stream and no WAV file have been
  opened (the file is opened only after the stream); the figure created before the
  attempt is still there when the run returns.
\<close>

theorem invalid_device_returns_False:
  "audio_open h idx fmt ch rate spf = Some OSError \<Longrightarrow>
   \<exists>s. visualize_audio h env out idx spf fmt ch rate path = Some (Inr False, s) \<and>
       wav_file s = None \<and> stream s = Not_opened \<and> figure s \<and>
       stdout s = out @ [Msg_invalid_index]"
  by (simp add: visualize_audio_OSError init_state_def)

theorem invalid_device_returns_False_witness:
  "\<not> validate_device (- 1) example_host \<and>
   audio_open example_host (- 1) 8 1 8000 1 = Some OSError \<and>
   visualize_audio example_host (quiet_env [ok_cycle [1, 2]]) [Msg_prompt] (- 1) 1 8 1 8000 ''o.wav'' =
     Some (Inr False,
       \<lparr>figure = True, pyaudio = True, stream = Not_opened, wav_file = None,
        ydata = None, frame_count = 0, reads_done = 0,
        stdout = [Msg_prompt, Msg_invalid_index]\<rparr>)"
proof -
  have a: "audio_open example_host (- 1) 8 1 8000 1 = Some OSError"
    by (simp add: example_host_def)
  have v: "\<not> validate_device (- 1) example_host"
    by (simp add: validate_device_def deviceCount_def example_host_def)
  from invalid_device_returns_False [OF a, of "quiet_env [ok_cycle [1, 2]]" "[Msg_prompt]" "''o.wav''"]
  obtain s where s: "visualize_audio example_host (quiet_env [ok_cycle [1, 2]]) [Msg_prompt]
      (- 1) 1 8 1 8000 ''o.wav'' = Some (Inr False, s)"
    by (elim exE conjE)
  have run: "visualize_audio example_host (quiet_env [ok_cycle [1, 2]]) [Msg_prompt]
      (- 1) 1 8 1 8000 ''o.wav'' =
     Some (Inr False,
       \<lparr>figure = True, pyaudio = True, stream = Not_opened, wav_file = None,
        ydata = None, frame_count = 0, reads_done = 0,
        stdout = [Msg_prompt, Msg_invalid_index]\<rparr>)"
    by (simp add: eval_run)
  from a v s run show ?thesis by simp
qed

subsection \<open>The driver\<close>

lemma loop_break_prints:
  "capture_loop spf dt cs s = Some (Inr u, s') \<Longrightarrow>
   \<exists>q. stdout s' = stdout s @ [Msg_stopped, Msg_frame_rate q]"
proof (induction cs arbitrary: s)
  case Nil
  then show ?case by simp
next
  case (Cons c cs)
  from Cons.prems obtain f ys where f: "cyc_read c = Inr f" and ys: "data_np spf f = Inr ys"
    by (auto simp: Let_def split: sum.splits)
  show ?case
  proof (cases "cyc_draw c")
    case None
    from Cons.prems have "capture_loop spf dt cs
       (s\<lparr>reads_done := reads_done s + 1,
          wav_file := map_option (writeframes f) (wav_file s),
          ydata := Some ys,
          frame_count := frame_count s + 1\<rparr>) = Some (Inr u, s')"
      by (simp only: loop_draw_ok [OF f ys None])
    from Cons.IH [OF this] show ?thesis by simp
  next
    case (Some e)
    show ?thesis
    proof (cases "e = TclError")
      case True
      with Cons.prems f ys Some show ?thesis
        by (auto simp: Let_def split: if_splits)
    next
      case False
      with Cons.prems show ?thesis
        by (simp only: loop_draw_raises [OF f ys Some False]) simp
    qed
  qed
qed

lemma run_True_prints:
  assumes "visualize_audio h env out idx spf fmt ch rate path = Some (Inr True, s)"
  shows "\<exists>q. last (stdout s) = Msg_frame_rate q"
proof (cases "audio_open h idx fmt ch rate spf")
  case (Some e)
  with assms show ?thesis
    by (cases "e = OSError") (auto simp: visualize_audio_OSError visualize_audio_open_raises)
next
  case None
  with assms obtain u s3 where
    loop: "capture_loop spf (elapsed env) (cycles env) (opened_state h out fmt ch rate path) =
             Some (Inr u, s3)"
    and td: "teardown env s3 = (Inr True, s)"
    by (auto simp: visualize_audio_opened split: option.splits sum.splits)
  from loop_break_prints [OF loop] obtain q where
    "stdout s3 = stdout (opened_state h out fmt ch rate path) @ [Msg_stopped, Msg_frame_rate q]"
    by blast
  with teardown_keeps [OF td] show ?thesis by simp
qed

lemma main_loop_exit_normal:
  "main_loop h a idx envs ins out = Some (Exit_normal, ins', out') \<Longrightarrow>
   \<exists>env \<in> set envs. \<exists>idx0 out0 s.
      visualize_audio h env out0 idx0 (samples_per_frame a) (audio_format a) (num_channels a)
        (sample_rate a) (output_file a) = Some (Inr True, s) \<and> stdout s = out'"
proof (induction envs arbitrary: idx ins out)
  case Nil
  then show ?case by simp
next
  case (Cons env envs)
  let ?run = "visualize_audio h env out idx (samples_per_frame a) (audio_format a)
     (num_channels a) (sample_rate a) (output_file a)"
  from Cons.prems obtain success s where run: "?run = Some (Inr success, s)"
    by (auto split: option.splits sum.splits)
  show ?case
  proof (cases success)
    case True
    with Cons.prems run have "stdout s = out'" by simp
    with run True show ?thesis by auto
  next
    case False
    with Cons.prems run obtain idx' ins1 out1 where
      "main_loop h a idx' envs ins1 out1 = Some (Exit_normal, ins', out')"
      by (auto split: prod.splits sum.splits)
    from Cons.IH [OF this] show ?thesis by auto
  qed
qed

lemma main_loop_failed_run:
  assumes "visualize_audio h env out idx (samples_per_frame a) (audio_format a) (num_channels a)
        (sample_rate a) (output_file a) = Some (Inr False, s)"
    and "select_device h ins (stdout s) = (Inr idx', ins', out')"
  shows "main_loop h a idx (env # envs) ins out = main_loop h a idx' envs ins' out'"
  using assms by simp

lemma main_loop_repeats:
  "length js = length fs \<Longrightarrow> \<forall>j \<in> set js. validate_device j h \<Longrightarrow>
   \<forall>i \<in> set (butlast (idx # js)).
      audio_open h i (audio_format a) (num_channels a) (sample_rate a) (samples_per_frame a)
        = Some OSError \<Longrightarrow>
   \<exists>out'. main_loop h a idx (fs @ es) (map Typed_int js @ ins) out =
           main_loop h a (last (idx # js)) es ins out'"
proof (induction fs arbitrary: idx js out)
  case Nil
  then show ?case by auto
next
  case (Cons f fs)
  from Cons.prems(1) obtain j js' where js: "js = j # js'" and len: "length js' = length fs"
    by (cases js) auto
  from Cons.prems(2) js have j: "validate_device j h" and rest: "\<forall>j \<in> set js'. validate_device j h"
    by simp_all
  from Cons.prems(3) js have
    fail: "audio_open h idx (audio_format a) (num_channels a) (sample_rate a) (samples_per_frame a)
        = Some OSError"
    and later: "\<forall>i \<in> set (butlast (j # js')).
      audio_open h i (audio_format a) (num_channels a) (sample_rate a) (samples_per_frame a)
        = Some OSError"
    by simp_all
  let ?s = "(init_state out)\<lparr>stdout := out @ [Msg_invalid_index]\<rparr>"
  have step: "main_loop h a idx ((f # fs) @ es) (map Typed_int js @ ins) out =
        main_loop h a j (fs @ es) (map Typed_int js' @ ins)
          (stdout ?s @ list_devices h @ [Msg_prompt])"
    unfolding js append_Cons list.map
    by (rule main_loop_failed_run [OF visualize_audio_OSError [OF fail]])
       (rule select_device_first_valid [OF j])
  from Cons.IH [OF len rest later] step js show ?case
    by simp
qed

text \<open>Before the loop (lines 178 to 181): the index given is used when it is valid.\<close>

lemma main_with_valid_index:
  "input_device a = Some i \<Longrightarrow> validate_device i h \<Longrightarrow>
   main h a envs ins = main_loop h a i envs ins []"
  by (simp add: main_def)

lemma main_selects_first:
  assumes "input_device a = None \<or> (\<exists>i. input_device a = Some i \<and> \<not> validate_device i h)"
    and "select_device h ins [] = (Inr idx, ins', out)"
  shows "main h a envs ins = main_loop h a idx envs ins' out"
  using assms by (auto simp: main_def)

text \<open>
  Claim C8. The driver is a flat loop. After a run that returns \<open>False\<close> it calls
  \<open>select_device\<close> and goes on with a fresh run for the (validated) index selected;
  this repeats for any number of failed runs (after \<open>length fs\<close> runs whose stream
  could not be opened, each followed by the input of a valid index, the loop stands
  before the next run with the index selected last); and the process ends normally only
  after a run has returned \<open>True\<close>, with the output of that run, whose last message
  is the average frame rate.
\<close>

theorem main_loop_flat:
  "(visualize_audio h env out idx (samples_per_frame a) (audio_format a) (num_channels a)
        (sample_rate a) (output_file a) = Some (Inr False, s) \<and>
    select_device h ins (stdout s) = (Inr idx', ins', out') \<longrightarrow>
      main_loop h a idx (env # envs) ins out = main_loop h a idx' envs ins' out' \<and>
      validate_device idx' h) \<and>
   (length js = length fs \<and> (\<forall>j \<in> set js. validate_device j h) \<and>
    (\<forall>i \<in> set (butlast (idx # js)).
       audio_open h i (audio_format a) (num_channels a) (sample_rate a) (samples_per_frame a)
         = Some OSError) \<longrightarrow>
      (\<exists>out1. main_loop h a idx (fs @ es) (map Typed_int js @ ins) out =
              main_loop h a (last (idx # js)) es ins out1)) \<and>
   (main_loop h a idx envs ins out = Some (Exit_normal, ins2, out2) \<longrightarrow>
      (\<exists>env0 \<in> set envs. \<exists>idx0 out0 s0.
         visualize_audio h env0 out0 idx0 (samples_per_frame a) (audio_format a)
           (num_channels a) (sample_rate a) (output_file a) = Some (Inr True, s0) \<and>
         stdout s0 = out2 \<and> (\<exists>q. last out2 = Msg_frame_rate q)))"
proof (intro conjI impI)
  assume "visualize_audio h env out idx (samples_per_frame a) (audio_format a) (num_channels a)
        (sample_rate a) (output_file a) = Some (Inr False, s) \<and>
    select_device h ins (stdout s) = (Inr idx', ins', out')"
  then show "main_loop h a idx (env # envs) ins out = main_loop h a idx' envs ins' out'"
    and "validate_device idx' h"
    using main_loop_failed_run select_device_valid by blast+
next
  assume "length js = length fs \<and> (\<forall>j \<in> set js. validate_device j h) \<and>
    (\<forall>i \<in> set (butlast (idx # js)).
       audio_open h i (audio_format a) (num_channels a) (sample_rate a) (samples_per_frame a)
         = Some OSError)"
  then show "\<exists>out1. main_loop h a idx (fs @ es) (map Typed_int js @ ins) out =
              main_loop h a (last (idx # js)) es ins out1"
    using main_loop_repeats [of js fs h idx a es ins out] by blast
next
  assume ex: "main_loop h a idx envs ins out = Some (Exit_normal, ins2, out2)"
  from main_loop_exit_normal [OF ex] obtain env0 idx0 out0 s0 where
    e: "env0 \<in> set envs" and
    r: "visualize_audio h env0 out0 idx0 (samples_per_frame a) (audio_format a)
           (num_channels a) (sample_rate a) (output_file a) = Some (Inr True, s0)" and
    o: "stdout s0 = out2"
    by blast
  from run_True_prints [OF r] o have "\<exists>q. last out2 = Msg_frame_rate q" by simp
  with e r o show "\<exists>env0 \<in> set envs. \<exists>idx0 out0 s0.
         visualize_audio h env0 out0 idx0 (samples_per_frame a) (audio_format a)
           (num_channels a) (sample_rate a) (output_file a) = Some (Inr True, s0) \<and>
         stdout s0 = out2 \<and> (\<exists>q. last out2 = Msg_frame_rate q)"
    by blast
qed

theorem main_loop_flat_witness:
  "visualize_audio example_host (quiet_env []) [] 5 1 8 1 8000 ''o.wav'' =
     Some (Inr False,
       \<lparr>figure = True, pyaudio = True, stream = Not_opened, wav_file = None,
        ydata = None, frame_count = 0, reads_done = 0, stdout = [Msg_invalid_index]\<rparr>) \<and>
   select_device example_host [Typed_int 0] [Msg_invalid_index] =
     (Inr 0, [],
      [Msg_invalid_index, Msg_device 0 ''mic'', Msg_device 1 ''line in'', Msg_prompt]) \<and>
   validate_device 0 example_host \<and>
   audio_open example_host 5 8 1 8000 1 = Some OSError \<and>
   main_loop example_host example_args 5
       [quiet_env [], quiet_env [closing_cycle [1, 2]]] [Typed_int 0] [] =
     main_loop example_host example_args 0 [quiet_env [closing_cycle [1, 2]]] []
       [Msg_invalid_index, Msg_device 0 ''mic'', Msg_device 1 ''line in'', Msg_prompt] \<and>
   main_loop example_host example_args 0 [quiet_env [closing_cycle [1, 2]]] []
       [Msg_invalid_index, Msg_device 0 ''mic'', Msg_device 1 ''line in'', Msg_prompt] =
     Some (Exit_normal, [],
       [Msg_invalid_index, Msg_device 0 ''mic'', Msg_device 1 ''line in'', Msg_prompt,
        Msg_started, Msg_stopped, Msg_frame_rate 0])"
proof -
  let ?s = "\<lparr>figure = True, pyaudio = True, stream = Not_opened, wav_file = None,
        ydata = None, frame_count = 0, reads_done = 0, stdout = [Msg_invalid_index]\<rparr>"
  let ?out = "[Msg_invalid_index, Msg_device 0 ''mic'', Msg_device 1 ''line in'', Msg_prompt]"
  have ld: "list_devices example_host = [Msg_device 0 ''mic'', Msg_device 1 ''line in'']"
    by (simp add: list_devices_def example_host_def upt_conv_Cons)
  have v: "validate_device 0 example_host"
    by (simp add: validate_device_def deviceCount_def example_host_def)
  have run: "visualize_audio example_host (quiet_env []) [] 5
      (samples_per_frame example_args) (audio_format example_args) (num_channels example_args)
      (sample_rate example_args) (output_file example_args) = Some (Inr False, ?s)"
    by (simp add: eval_run example_args_def)
  have sel: "select_device example_host [Typed_int 0] (stdout ?s) = (Inr 0, [], ?out)"
    by (simp add: ld v)
  have fin: "main_loop example_host example_args 0 [quiet_env [closing_cycle [1, 2]]] [] ?out =
     Some (Exit_normal, [], ?out @ [Msg_started, Msg_stopped, Msg_frame_rate 0])"
    by (simp add: eval_run example_args_def)
  have step: "main_loop example_host example_args 5
       [quiet_env [], quiet_env [closing_cycle [1, 2]]] [Typed_int 0] [] =
     main_loop example_host example_args 0 [quiet_env [closing_cycle [1, 2]]] [] ?out"
    using main_loop_flat [where h = example_host and a = example_args and env = "quiet_env []"
        and out = "[]" and idx = 5 and s = ?s and ins = "[Typed_int 0]" and idx' = 0
        and ins' = "[]" and out' = ?out and envs = "[quiet_env [closing_cycle [1, 2]]]"]
      run sel
    by blast
  have fail: "audio_open example_host 5 8 1 8000 1 = Some OSError"
    by (simp add: example_host_def)
  from run sel v fail step fin show ?thesis
    by (simp add: example_args_def)
qed

end
